theory Spec2Isabelle
  imports Complex_Main
begin

section \<open>Numbers, failures and the random source\<close>

text \<open>
  The simulator of \<^verbatim>\<open>src/app.py\<close> computes with Python and numpy floats. They are
  modelled as real numbers: rounding, underflow and the silent overflow of a product to
  infinity are outside the model. What the arithmetic does when it has no finite value is
  kept, as a failure of the run:
  \<^item> \<open>ZeroDivisionError\<close>, \<open>OverflowError\<close>, \<open>ValueError\<close>: the Python exceptions the
    function can raise (a Python float divided by zero, a power out of the range of a
    double, \<^verbatim>\<open>int()\<close> of an infinity or a NaN);
  \<^item> \<open>NonFinite\<close>: a numpy scalar operation that answers \<^verbatim>\<open>inf\<close> or \<^verbatim>\<open>nan\<close> with a
    RuntimeWarning instead of raising (division by zero, square root or logarithm outside
    the domain). The code goes on with that value; the model stops, since no real number
    stands for it.
\<close>

datatype failure = ZeroDivisionError | OverflowError | ValueError | NonFinite

definition and_then :: "failure + 'a \<Rightarrow> ('a \<Rightarrow> failure + 'b) \<Rightarrow> failure + 'b" where
  "and_then m f = (case m of Inl e \<Rightarrow> Inl e | Inr v \<Rightarrow> f v)"

text \<open>The largest finite double, \<^verbatim>\<open>sys.float_info.max\<close>.\<close>

definition float_max :: real where
  "float_max = (2 - 1 / 2 ^ 52) * 2 ^ 1023"

text \<open>\<^verbatim>\<open>x ** y\<close> on Python floats with a positive base: OverflowError when the result
  is out of range.\<close>

definition py_pow :: "real \<Rightarrow> real \<Rightarrow> failure + real" where
  "py_pow x y = (if x powr y > float_max then Inl OverflowError else Inr (x powr y))"

text \<open>\<^verbatim>\<open>a / b\<close> when both operands are Python floats or ints.\<close>

definition py_div :: "real \<Rightarrow> real \<Rightarrow> failure + real" where
  "py_div a b = (if b = 0 then Inl ZeroDivisionError else Inr (a / b))"

text \<open>\<^verbatim>\<open>a / b\<close> when an operand is a numpy float64: a zero divisor gives
  \<^verbatim>\<open>inf\<close> or \<^verbatim>\<open>nan\<close>.\<close>

definition np_div :: "real \<Rightarrow> real \<Rightarrow> failure + real" where
  "np_div a b = (if b = 0 then Inl NonFinite else Inr (a / b))"

definition np_log2 :: "real \<Rightarrow> failure + real" where
  "np_log2 x = (if x \<le> 0 then Inl NonFinite else Inr (log 2 x))"

definition np_log10 :: "real \<Rightarrow> failure + real" where
  "np_log10 x = (if x \<le> 0 then Inl NonFinite else Inr (log 10 x))"

definition np_sqrt :: "real \<Rightarrow> failure + real" where
  "np_sqrt x = (if x < 0 then Inl NonFinite else Inr (sqrt x))"

text \<open>\<^verbatim>\<open>int(x)\<close> on a finite float truncates towards zero.\<close>

definition py_int :: "real \<Rightarrow> int" where
  "py_int x = (if 0 \<le> x then \<lfloor>x\<rfloor> else \<lceil>x\<rceil>)"

text \<open>\<^verbatim>\<open>int(a / b)\<close> with \<open>a\<close> a numpy float64: on a zero divisor the quotient is
  \<^verbatim>\<open>inf\<close> (or \<^verbatim>\<open>nan\<close> when \<open>a\<close> is zero too) and \<^verbatim>\<open>int\<close> raises OverflowError
  (or ValueError).\<close>

definition py_int_np_div :: "real \<Rightarrow> real \<Rightarrow> failure + int" where
  "py_int_np_div a b =
     (if b = 0 then (if a = 0 then Inl ValueError else Inl OverflowError)
      else Inr (py_int (a / b)))"

text \<open>
  The ambient random source is the sequence of the values \<^verbatim>\<open>random.random()\<close> returns,
  each in \<open>[0, 1)\<close>, read at a position that every draw advances.
  \<^verbatim>\<open>random.uniform(a, b)\<close> is \<^verbatim>\<open>a + (b - a) * random()\<close>.
\<close>

type_synonym random_source = "nat \<Rightarrow> real"

definition random_random :: "random_source \<Rightarrow> nat \<Rightarrow> real \<times> nat" where
  "random_random src pos = (src pos, Suc pos)"

definition random_uniform :: "random_source \<Rightarrow> real \<Rightarrow> real \<Rightarrow> nat \<Rightarrow> real \<times> nat" where
  "random_uniform src a b pos = (a + (b - a) * src pos, Suc pos)"

definition unit_draws :: "random_source \<Rightarrow> bool" where
  "unit_draws src = (\<forall>i. 0 \<le> src i \<and> src i < 1)"

section \<open>The simulation\<close>

text \<open>The dictionary of six series that \<^verbatim>\<open>simulate_cross_layer\<close> returns, one field
  for each key.\<close>

record results =
  r_time :: "int list"
  r_bitrate :: "real list"
  r_psnr :: "real list"
  r_delay :: "real list"
  r_energy :: "real list"
  r_throughput :: "real list"

definition empty_results :: results where
  "empty_results =
     \<lparr>r_time = [], r_bitrate = [], r_psnr = [], r_delay = [], r_energy = [],
      r_throughput = []\<rparr>"

text \<open>The six \<^verbatim>\<open>append\<close> calls that end a frame.\<close>

definition store :: "results \<Rightarrow> int \<Rightarrow> real \<Rightarrow> real \<Rightarrow> real \<Rightarrow> real \<Rightarrow> real \<Rightarrow> results" where
  "store res t b p d e th =
     \<lparr>r_time = r_time res @ [t], r_bitrate = r_bitrate res @ [b],
      r_psnr = r_psnr res @ [p], r_delay = r_delay res @ [d],
      r_energy = r_energy res @ [e], r_throughput = r_throughput res @ [th]\<rparr>"

text \<open>What a frame reads and writes: the queue accumulator, the position in the random
  sequence and the series so far.\<close>

record sim_state =
  queue_length :: real
  rng_pos :: nat
  results :: results

definition power_tx :: real where
  "power_tx = 0.1"

text \<open>Line 40: \<^verbatim>\<open>cwnd = min(10, max(1, int(capacity_t / (pkt_size * 1024 * 8))))\<close>.\<close>

definition congestion_window :: "real \<Rightarrow> real \<Rightarrow> failure + int" where
  "congestion_window capacity_t pkt_size =
     and_then (py_int_np_div capacity_t (pkt_size * 1024 * 8))
       (\<lambda>n. Inr (min 10 (max 1 n)))"

text \<open>
  Lines 52 to 68, the part of the loop body after the link layer: the queue update, the
  delay, the energy, the quality estimate and the six appends. \<open>numpy_valued\<close> says
  whether \<^verbatim>\<open>min\<close> returned its second argument, the numpy float64
  \<^verbatim>\<open>capacity_t * 0.9\<close>, rather than the Python float \<^verbatim>\<open>bitrate * 1e6\<close>: the
  divisions of line 59 raise on a zero divisor only between Python floats.
\<close>

definition record_frame ::
  "real \<Rightarrow> real \<Rightarrow> nat \<Rightarrow> real \<Rightarrow> real \<Rightarrow> bool \<Rightarrow> real \<Rightarrow> nat \<Rightarrow> sim_state
     \<Rightarrow> failure + sim_state" where
  "record_frame pkt_size bitrate t capacity_t adaptive_bitrate numpy_valued throughput pos s =
     (let queue_length' = queue_length s + max 0 (adaptive_bitrate - capacity_t);
          div59 = (if numpy_valued then np_div else py_div)
      in and_then (np_div queue_length' (capacity_t + 0.000000001)) (\<lambda>delay.
         and_then (np_div (pkt_size * 8) capacity_t) (\<lambda>q.
         let energy = power_tx * q
         in and_then (div59 throughput (bitrate * 1000000)) (\<lambda>ratio.
            and_then (div59 (255 ^ 2) (ratio + 0.1)) (\<lambda>unclamped.
            let mse = max 1 unclamped
            in and_then (np_sqrt mse) (\<lambda>root.
               and_then (np_div 255 root) (\<lambda>peak.
               and_then (np_log10 peak) (\<lambda>l.
               let psnr = 20 * l
               in Inr \<lparr>queue_length = queue_length', rng_pos = pos,
                       results = store (results s) (int t) (adaptive_bitrate / 1000000)
                                   psnr delay energy (throughput / 1000000)\<rparr>))))))))"

text \<open>Lines 35 to 68, one iteration of the loop. The pacing \<^verbatim>\<open>time.sleep\<close> changes no
  value and is left out.\<close>

definition frame ::
  "random_source \<Rightarrow> real \<Rightarrow> real \<Rightarrow> real \<Rightarrow> nat \<Rightarrow> sim_state \<Rightarrow> failure + sim_state" where
  "frame src capacity pkt_size bitrate t s =
     (let (mult, pos1) = random_uniform src 0.8 1.2 (rng_pos s);
          capacity_t = capacity * mult;
          adaptive_bitrate = min (bitrate * 1000000) (capacity_t * 0.9);
          numpy_valued = (capacity_t * 0.9 < bitrate * 1000000)
      in and_then (congestion_window capacity_t pkt_size) (\<lambda>cwnd.
         let routing_eff = 0.95;
             throughput = adaptive_bitrate * routing_eff;
             (r, pos2) = random_random src pos1;
             link_eff = (if r > 0.1 then 1.0 else 0.9);
             throughput = throughput * link_eff
         in record_frame pkt_size bitrate t capacity_t adaptive_bitrate numpy_valued
              throughput pos2 s))"

text \<open>\<^verbatim>\<open>for t in range(total_frames)\<close>: the body runs on each index in turn and the
  first failure ends the run.\<close>

fun for_range :: "(nat \<Rightarrow> 's \<Rightarrow> failure + 's) \<Rightarrow> nat list \<Rightarrow> 's \<Rightarrow> failure + 's" where
  "for_range body [] s = Inr s"
| "for_range body (t # ts) s = and_then (body t s) (for_range body ts)"

text \<open>Lines 30 and 31, with the random source unread.\<close>

definition initial_state :: sim_state where
  "initial_state = \<lparr>queue_length = 0, rng_pos = 0, results = empty_results\<rparr>"

text \<open>
  Lines 26 to 72. The four channel and video parameters are Python numbers (the sliders
  give integers, the specification allows reals); \<open>total_frames\<close> is an integer, and
  \<^verbatim>\<open>range\<close> of a non-positive one is empty. The argument \<open>src\<close> is the ambient random
  source. The result is the dictionary of series, or the failure that ended the run.
\<close>

definition simulate_cross_layer ::
  "real \<Rightarrow> real \<Rightarrow> real \<Rightarrow> real \<Rightarrow> int \<Rightarrow> random_source \<Rightarrow> failure + results" where
  "simulate_cross_layer bw snr_db pkt_size bitrate total_frames src =
     and_then (py_pow 10 (snr_db / 10)) (\<lambda>snr_lin.
     and_then (np_log2 (1 + snr_lin)) (\<lambda>l.
     let capacity = bw * 1000000 * l
     in and_then (for_range (frame src capacity pkt_size bitrate) [0..<nat total_frames]
                    initial_state)
          (\<lambda>s. Inr (results s))))"

text \<open>The simulation with line 40 deleted: the same loop body without the congestion
  window, and the same run around it.\<close>

definition frame_without_cwnd ::
  "random_source \<Rightarrow> real \<Rightarrow> real \<Rightarrow> real \<Rightarrow> nat \<Rightarrow> sim_state \<Rightarrow> failure + sim_state" where
  "frame_without_cwnd src capacity pkt_size bitrate t s =
     (let (mult, pos1) = random_uniform src 0.8 1.2 (rng_pos s);
          capacity_t = capacity * mult;
          adaptive_bitrate = min (bitrate * 1000000) (capacity_t * 0.9);
          numpy_valued = (capacity_t * 0.9 < bitrate * 1000000);
          routing_eff = 0.95;
          throughput = adaptive_bitrate * routing_eff;
          (r, pos2) = random_random src pos1;
          link_eff = (if r > 0.1 then 1.0 else 0.9);
          throughput = throughput * link_eff
      in record_frame pkt_size bitrate t capacity_t adaptive_bitrate numpy_valued
           throughput pos2 s)"

definition simulate_without_cwnd ::
  "real \<Rightarrow> real \<Rightarrow> real \<Rightarrow> real \<Rightarrow> int \<Rightarrow> random_source \<Rightarrow> failure + results" where
  "simulate_without_cwnd bw snr_db pkt_size bitrate total_frames src =
     and_then (py_pow 10 (snr_db / 10)) (\<lambda>snr_lin.
     and_then (np_log2 (1 + snr_lin)) (\<lambda>l.
     let capacity = bw * 1000000 * l
     in and_then (for_range (frame_without_cwnd src capacity pkt_size bitrate)
                    [0..<nat total_frames] initial_state)
          (\<lambda>s. Inr (results s))))"

section \<open>The quantities of a frame, by frame index\<close>

text \<open>
  Frame \<open>t\<close> makes two draws, at positions \<open>2 * t\<close> (the channel multiplier) and
  \<open>2 * t + 1\<close> (the link layer). The expressions of the loop body are written here as
  functions of the frame index, to state what a run records; the lemmas below show that
  the run computes exactly these.
\<close>

text \<open>Lines 27 and 28, where the power does not overflow.\<close>

definition capacity_of :: "real \<Rightarrow> real \<Rightarrow> real" where
  "capacity_of bw snr_db = bw * 1000000 * log 2 (1 + 10 powr (snr_db / 10))"

definition capacity_t_at :: "random_source \<Rightarrow> real \<Rightarrow> nat \<Rightarrow> real" where
  "capacity_t_at src capacity t = capacity * fst (random_uniform src 0.8 1.2 (2 * t))"

definition link_eff_at :: "random_source \<Rightarrow> nat \<Rightarrow> real" where
  "link_eff_at src t = (if fst (random_random src (Suc (2 * t))) > 0.1 then 1.0 else 0.9)"

definition adaptive_bitrate_at :: "random_source \<Rightarrow> real \<Rightarrow> real \<Rightarrow> nat \<Rightarrow> real" where
  "adaptive_bitrate_at src capacity bitrate t =
     min (bitrate * 1000000) (capacity_t_at src capacity t * 0.9)"

definition throughput_at :: "random_source \<Rightarrow> real \<Rightarrow> real \<Rightarrow> nat \<Rightarrow> real" where
  "throughput_at src capacity bitrate t =
     adaptive_bitrate_at src capacity bitrate t * 0.95 * link_eff_at src t"

definition queue_increment_at :: "random_source \<Rightarrow> real \<Rightarrow> real \<Rightarrow> nat \<Rightarrow> real" where
  "queue_increment_at src capacity bitrate t =
     max 0 (adaptive_bitrate_at src capacity bitrate t - capacity_t_at src capacity t)"

primrec queue_length_after :: "random_source \<Rightarrow> real \<Rightarrow> real \<Rightarrow> nat \<Rightarrow> real" where
  "queue_length_after src capacity bitrate 0 = 0"
| "queue_length_after src capacity bitrate (Suc n) =
     queue_length_after src capacity bitrate n + queue_increment_at src capacity bitrate n"

definition delay_at :: "random_source \<Rightarrow> real \<Rightarrow> real \<Rightarrow> nat \<Rightarrow> real" where
  "delay_at src capacity bitrate t =
     queue_length_after src capacity bitrate (Suc t)
       / (capacity_t_at src capacity t + 0.000000001)"

definition energy_at :: "random_source \<Rightarrow> real \<Rightarrow> real \<Rightarrow> nat \<Rightarrow> real" where
  "energy_at src capacity pkt_size t =
     power_tx * (pkt_size * 8 / capacity_t_at src capacity t)"

definition mse_at :: "random_source \<Rightarrow> real \<Rightarrow> real \<Rightarrow> nat \<Rightarrow> real" where
  "mse_at src capacity bitrate t =
     max 1 (255 ^ 2 / (throughput_at src capacity bitrate t / (bitrate * 1000000) + 0.1))"

definition psnr_at :: "random_source \<Rightarrow> real \<Rightarrow> real \<Rightarrow> nat \<Rightarrow> real" where
  "psnr_at src capacity bitrate t = 20 * log 10 (255 / sqrt (mse_at src capacity bitrate t))"

definition series :: "random_source \<Rightarrow> real \<Rightarrow> real \<Rightarrow> real \<Rightarrow> nat \<Rightarrow> results" where
  "series src capacity pkt_size bitrate n =
     \<lparr>r_time = map int [0..<n],
      r_bitrate = map (\<lambda>t. adaptive_bitrate_at src capacity bitrate t / 1000000) [0..<n],
      r_psnr = map (psnr_at src capacity bitrate) [0..<n],
      r_delay = map (delay_at src capacity bitrate) [0..<n],
      r_energy = map (energy_at src capacity pkt_size) [0..<n],
      r_throughput = map (\<lambda>t. throughput_at src capacity bitrate t / 1000000) [0..<n]\<rparr>"

section \<open>What a run computes\<close>

subsection \<open>Failures and one frame\<close>

lemma and_then_Inr_iff: "and_then m f = Inr y \<longleftrightarrow> (\<exists>v. m = Inr v \<and> f v = Inr y)"
  by (cases m) (simp_all add: and_then_def)

lemma and_then_Inr [simp]: "and_then (Inr v) f = f v"
  by (simp add: and_then_def)

lemma and_then_Inl [simp]: "and_then (Inl e) f = Inl e"
  by (simp add: and_then_def)

lemma np_div_Inr_iff: "np_div a b = Inr q \<longleftrightarrow> b \<noteq> 0 \<and> q = a / b"
  by (auto simp: np_div_def)

lemma py_div_Inr_iff: "py_div a b = Inr q \<longleftrightarrow> b \<noteq> 0 \<and> q = a / b"
  by (auto simp: py_div_def)

lemma np_sqrt_Inr_iff: "np_sqrt x = Inr r \<longleftrightarrow> 0 \<le> x \<and> r = sqrt x"
  by (auto simp: np_sqrt_def)

lemma np_log10_Inr_iff: "np_log10 x = Inr r \<longleftrightarrow> 0 < x \<and> r = log 10 x"
  by (auto simp: np_log10_def)

lemma record_frame_Inr:
  assumes "record_frame pkt_size bitrate t c a nv th pos s = Inr s'"
  shows "s' = \<lparr>queue_length = queue_length s + max 0 (a - c), rng_pos = pos,
      results = store (results s) (int t) (a / 1000000)
         (20 * log 10 (255 / sqrt (max 1 (255 ^ 2 / (th / (bitrate * 1000000) + 0.1)))))
         ((queue_length s + max 0 (a - c)) / (c + 0.000000001))
         (power_tx * (pkt_size * 8 / c)) (th / 1000000)\<rparr>"
  using assms unfolding record_frame_def Let_def
  by (auto simp: and_then_Inr_iff np_div_Inr_iff py_div_Inr_iff np_sqrt_Inr_iff
      np_log10_Inr_iff split: if_splits)

lemma series_Suc:
  "series src capacity pkt_size bitrate (Suc n) =
     store (series src capacity pkt_size bitrate n) (int n)
       (adaptive_bitrate_at src capacity bitrate n / 1000000)
       (psnr_at src capacity bitrate n) (delay_at src capacity bitrate n)
       (energy_at src capacity pkt_size n) (throughput_at src capacity bitrate n / 1000000)"
  by (simp add: series_def store_def)

lemma frame_Inr:
  assumes "frame src capacity pkt_size bitrate t s = Inr s'"
    and "rng_pos s = 2 * t"
    and "queue_length s = queue_length_after src capacity bitrate t"
    and "results s = series src capacity pkt_size bitrate t"
  shows "s' = \<lparr>queue_length = queue_length_after src capacity bitrate (Suc t),
               rng_pos = 2 * Suc t,
               results = series src capacity pkt_size bitrate (Suc t)\<rparr>"
proof -
  from assms(1) have
    rf: "record_frame pkt_size bitrate t (capacity_t_at src capacity t)
           (adaptive_bitrate_at src capacity bitrate t)
           (capacity_t_at src capacity t * 0.9 < bitrate * 1000000)
           (throughput_at src capacity bitrate t) (2 * Suc t) s = Inr s'"
    unfolding frame_def Let_def
    by (auto simp: and_then_Inr_iff random_uniform_def random_random_def capacity_t_at_def
        adaptive_bitrate_at_def throughput_at_def link_eff_at_def assms(2) split: if_splits)
  show ?thesis
    using record_frame_Inr [OF rf]
    by (simp add: series_Suc assms(3,4) queue_increment_at_def psnr_at_def mse_at_def
        delay_at_def energy_at_def)
qed

lemma for_range_append:
  "for_range body (xs @ ys) s = and_then (for_range body xs s) (for_range body ys)"
proof (induction xs arbitrary: s)
  case Nil
  show ?case by simp
next
  case (Cons x xs)
  show ?case
    by (cases "body x s") (simp_all add: Cons.IH)
qed

lemma for_range_frames_Inr:
  "for_range (frame src capacity pkt_size bitrate) [0..<n] initial_state = Inr s \<Longrightarrow>
     s = \<lparr>queue_length = queue_length_after src capacity bitrate n, rng_pos = 2 * n,
          results = series src capacity pkt_size bitrate n\<rparr>"
proof (induction n arbitrary: s)
  case 0
  then show ?case
    by (auto simp: initial_state_def series_def empty_results_def)
next
  case (Suc n)
  from Suc.prems obtain s0 where
    run: "for_range (frame src capacity pkt_size bitrate) [0..<n] initial_state = Inr s0"
    and step: "frame src capacity pkt_size bitrate n s0 = Inr s"
    by (auto simp: for_range_append and_then_Inr_iff)
  from Suc.IH [OF run] have
    "rng_pos s0 = 2 * n"
    "queue_length s0 = queue_length_after src capacity bitrate n"
    "results s0 = series src capacity pkt_size bitrate n"
    by simp_all
  then show ?case
    by (rule frame_Inr [OF step])
qed

subsection \<open>Runs that return\<close>

lemma log2_snr_pos: "0 < log 2 (1 + 10 powr (y::real))"
proof -
  have p: "0 < (10::real) powr y"
    by simp
  have "log 2 1 < log 2 (1 + 10 powr y)"
    using p by (intro log_less) simp_all
  then show ?thesis
    by simp
qed

lemma capacity_of_pos:
  assumes "0 < bw"
  shows "0 < capacity_of bw snr_db"
  using assms log2_snr_pos [of "snr_db / 10"]
  by (simp add: capacity_of_def)

lemma capacity_t_at_pos:
  "0 < capacity \<Longrightarrow> unit_draws src \<Longrightarrow> 0 < capacity_t_at src capacity t"
  unfolding capacity_t_at_def random_uniform_def unit_draws_def
  by (auto intro!: mult_pos_pos add_pos_nonneg)

lemma link_eff_at_cases: "link_eff_at src t = 1 \<or> link_eff_at src t = 0.9"
  by (simp add: link_eff_at_def)

lemma link_eff_at_bounds: "0 < link_eff_at src t" "link_eff_at src t \<le> 1"
  by (simp_all add: link_eff_at_def)

lemma record_frame_succeeds:
  assumes "0 < c" and "0 < bitrate" and "0 \<le> th"
  shows "\<exists>s'. record_frame pkt_size bitrate t c a nv th pos s = Inr s'"
proof -
  have r: "0 \<le> th / (bitrate * 1000000)"
    using assms by simp
  then have d: "th / (bitrate * 1000000) + 0.1 \<noteq> 0"
    by linarith
  have m: "0 < sqrt (max 1 (255 ^ 2 / (th / (bitrate * 1000000) + 0.1)))"
    by simp
  show ?thesis
    unfolding record_frame_def Let_def
    using assms d m
    by (simp add: np_div_def py_div_def np_sqrt_def np_log10_def)
qed

lemma frame_succeeds:
  assumes "0 < capacity" and "unit_draws src" and "pkt_size \<noteq> 0" and "0 < bitrate"
    and "rng_pos s = 2 * t"
  shows "\<exists>s'. frame src capacity pkt_size bitrate t s = Inr s'"
proof -
  have c: "0 < capacity_t_at src capacity t"
    using assms(1,2) by (rule capacity_t_at_pos)
  then have a: "0 \<le> adaptive_bitrate_at src capacity bitrate t"
    using assms(4) by (simp add: adaptive_bitrate_at_def)
  have th: "0 \<le> throughput_at src capacity bitrate t"
    unfolding throughput_at_def using a link_eff_at_bounds(1) [of src t]
    by simp
  have cw: "\<exists>w. congestion_window (capacity_t_at src capacity t) pkt_size = Inr w"
    using assms(3) by (simp add: congestion_window_def py_int_np_div_def)
  from record_frame_succeeds [OF c assms(4) th] cw show ?thesis
    unfolding frame_def Let_def
    by (auto simp: random_uniform_def random_random_def capacity_t_at_def
        adaptive_bitrate_at_def throughput_at_def link_eff_at_def assms(5))
qed

lemma for_range_frames_succeeds:
  assumes "0 < capacity" and "unit_draws src" and "pkt_size \<noteq> 0" and "0 < bitrate"
  shows "for_range (frame src capacity pkt_size bitrate) [0..<n] initial_state =
     Inr \<lparr>queue_length = queue_length_after src capacity bitrate n, rng_pos = 2 * n,
          results = series src capacity pkt_size bitrate n\<rparr>"
proof -
  have "\<exists>s. for_range (frame src capacity pkt_size bitrate) [0..<n] initial_state = Inr s"
  proof (induction n)
    case 0
    show ?case by simp
  next
    case (Suc n)
    then obtain s0 where
      run: "for_range (frame src capacity pkt_size bitrate) [0..<n] initial_state = Inr s0"
      by blast
    have "rng_pos s0 = 2 * n"
      using for_range_frames_Inr [OF run] by simp
    from frame_succeeds [OF assms this] run show ?case
      by (auto simp: for_range_append)
  qed
  then show ?thesis
    using for_range_frames_Inr by blast
qed

lemma simulate_cross_layer_capacity:
  "simulate_cross_layer bw snr_db pkt_size bitrate total_frames src =
     (if 10 powr (snr_db / 10) > float_max then Inl OverflowError
      else and_then (for_range (frame src (capacity_of bw snr_db) pkt_size bitrate)
                       [0..<nat total_frames] initial_state)
             (\<lambda>s. Inr (results s)))"
proof -
  have "0 < 1 + (10::real) powr (snr_db / 10)"
    by (intro add_pos_nonneg) simp_all
  then show ?thesis
    by (simp add: simulate_cross_layer_def py_pow_def np_log2_def capacity_of_def Let_def)
qed

lemma simulate_cross_layer_Inr:
  assumes "simulate_cross_layer bw snr_db pkt_size bitrate total_frames src = Inr res"
  shows "res = series src (capacity_of bw snr_db) pkt_size bitrate (nat total_frames)"
  using assms for_range_frames_Inr
  by (fastforce simp: simulate_cross_layer_capacity and_then_Inr_iff split: if_splits)

lemma simulate_cross_layer_succeeds:
  assumes "0 < bw" and "pkt_size \<noteq> 0" and "0 < bitrate" and "unit_draws src"
    and "10 powr (snr_db / 10) \<le> float_max"
  shows "simulate_cross_layer bw snr_db pkt_size bitrate total_frames src =
     Inr (series src (capacity_of bw snr_db) pkt_size bitrate (nat total_frames))"
  using assms(5)
    for_range_frames_succeeds [OF capacity_of_pos [OF assms(1)] assms(4) assms(2) assms(3)]
  by (simp add: simulate_cross_layer_capacity)

subsection \<open>The series, and the boundary scenario of the specification\<close>

lemma series_fields [simp]:
  "r_time (series src capacity pkt_size bitrate n) = map int [0..<n]"
  "r_bitrate (series src capacity pkt_size bitrate n) =
     map (\<lambda>t. adaptive_bitrate_at src capacity bitrate t / 1000000) [0..<n]"
  "r_psnr (series src capacity pkt_size bitrate n) = map (psnr_at src capacity bitrate) [0..<n]"
  "r_delay (series src capacity pkt_size bitrate n) = map (delay_at src capacity bitrate) [0..<n]"
  "r_energy (series src capacity pkt_size bitrate n) =
     map (energy_at src capacity pkt_size) [0..<n]"
  "r_throughput (series src capacity pkt_size bitrate n) =
     map (\<lambda>t. throughput_at src capacity bitrate t / 1000000) [0..<n]"
  by (simp_all add: series_def)

lemma half_unit_draws: "unit_draws (\<lambda>i. 1 / 2)"
  by (simp add: unit_draws_def)

lemma float_max_ge_one: "1 \<le> float_max"
  by (simp add: float_max_def)

lemma capacity_of_one_zero: "capacity_of 1 0 = 1000000"
  by (simp add: capacity_of_def)

lemma boundary_run:
  "simulate_cross_layer 1 0 1 1 n (\<lambda>i. 1 / 2) =
     Inr (series (\<lambda>i. 1 / 2) 1000000 1 1 (nat n))"
  using simulate_cross_layer_succeeds [of 1 1 1 "\<lambda>i. 1 / 2" 0 n] half_unit_draws
    float_max_ge_one
  by (simp add: capacity_of_one_zero)

subsection \<open>Bounds on the quantities of a frame\<close>

lemma mse_at_ge_one: "1 \<le> mse_at src capacity bitrate t"
  by (simp add: mse_at_def)

lemma psnr_at_le: "psnr_at src capacity bitrate t \<le> 20 * log 10 255"
proof -
  have m: "1 \<le> sqrt (mse_at src capacity bitrate t)"
    using mse_at_ge_one [of src capacity bitrate t] by simp
  then have "255 / sqrt (mse_at src capacity bitrate t) \<le> 255 / 1"
    by (intro divide_left_mono) simp_all
  moreover have "0 < 255 / sqrt (mse_at src capacity bitrate t)"
    using m by simp
  ultimately have "log 10 (255 / sqrt (mse_at src capacity bitrate t)) \<le> log 10 255"
    by simp
  then show ?thesis
    by (simp add: psnr_at_def)
qed

lemma and_then_Inr_right [simp]: "and_then m Inr = m"
  by (cases m) simp_all

lemma for_range_snoc:
  "for_range body (xs @ [t]) s = and_then (for_range body xs s) (body t)"
proof -
  have "for_range body [] = Inr"
    by (rule ext) simp
  then have "for_range body [t] = body t"
    by (intro ext) simp
  then show ?thesis
    by (simp add: for_range_append)
qed

lemma frame_cong:
  assumes "src1 (rng_pos s) = src2 (rng_pos s)"
    and "src1 (Suc (rng_pos s)) = src2 (Suc (rng_pos s))"
  shows "frame src1 capacity pkt_size bitrate t s = frame src2 capacity pkt_size bitrate t s"
  using assms by (simp add: frame_def random_uniform_def random_random_def)

lemma for_range_frames_cong:
  assumes "\<forall>i < 2 * n. src1 i = src2 i"
  shows "for_range (frame src1 capacity pkt_size bitrate) [0..<n] initial_state =
         for_range (frame src2 capacity pkt_size bitrate) [0..<n] initial_state"
  using assms
proof (induction n)
  case 0
  show ?case by simp
next
  case (Suc n)
  then have eq: "for_range (frame src1 capacity pkt_size bitrate) [0..<n] initial_state =
         for_range (frame src2 capacity pkt_size bitrate) [0..<n] initial_state"
    by simp
  show ?case
  proof (cases "for_range (frame src2 capacity pkt_size bitrate) [0..<n] initial_state")
    case (Inl e)
    with eq show ?thesis
      by (simp add: for_range_snoc)
  next
    case (Inr s0)
    then have "rng_pos s0 = 2 * n"
      using for_range_frames_Inr by fastforce
    then have "frame src1 capacity pkt_size bitrate n s0 =
               frame src2 capacity pkt_size bitrate n s0"
      using Suc.prems by (intro frame_cong) simp_all
    with eq Inr show ?thesis
      by (simp add: for_range_snoc)
  qed
qed

lemma adaptive_below_capacity:
  assumes "0 < capacity" and "unit_draws src"
  shows "adaptive_bitrate_at src capacity bitrate t \<le> capacity_t_at src capacity t * 0.9"
    and "capacity_t_at src capacity t * 0.9 < capacity_t_at src capacity t"
  using capacity_t_at_pos [OF assms] by (simp_all add: adaptive_bitrate_at_def)

lemma queue_increment_at_zero:
  assumes "0 < capacity" and "unit_draws src"
  shows "queue_increment_at src capacity bitrate t = 0"
proof -
  have "adaptive_bitrate_at src capacity bitrate t < capacity_t_at src capacity t"
    using adaptive_below_capacity(1) [OF assms, of bitrate t]
      adaptive_below_capacity(2) [OF assms, of t]
    by linarith
  then show ?thesis
    by (simp add: queue_increment_at_def)
qed

lemma queue_length_after_zero:
  assumes "0 < capacity" and "unit_draws src"
  shows "queue_length_after src capacity bitrate n = 0"
  by (induction n) (simp_all add: queue_increment_at_zero [OF assms])

lemma delay_at_zero:
  assumes "0 < capacity" and "unit_draws src"
  shows "delay_at src capacity bitrate = (\<lambda>t. 0)"
  unfolding delay_at_def queue_length_after_zero [OF assms] by simp

lemma link_eff_at_low: "link_eff_at src t = 0.9 \<longleftrightarrow> src (2 * t + 1) \<le> 0.1"
  by (simp add: link_eff_at_def random_random_def)

lemma adaptive_bitrate_at_nonneg:
  assumes "0 < capacity" and "unit_draws src" and "0 \<le> bitrate"
  shows "0 \<le> adaptive_bitrate_at src capacity bitrate t"
  using capacity_t_at_pos [OF assms(1,2), of t] assms(3)
  by (simp add: adaptive_bitrate_at_def)

lemma throughput_at_le:
  assumes "0 \<le> adaptive_bitrate_at src capacity bitrate t"
  shows "throughput_at src capacity bitrate t \<le> 0.95 * adaptive_bitrate_at src capacity bitrate t"
proof -
  have "adaptive_bitrate_at src capacity bitrate t * link_eff_at src t
          \<le> adaptive_bitrate_at src capacity bitrate t * 1"
    using assms link_eff_at_bounds(2) [of src t] by (intro mult_left_mono)
  then show ?thesis
    by (simp add: throughput_at_def mult.commute)
qed

lemma frame_Inr_step:
  assumes "frame src capacity pkt_size bitrate t s = Inr s'"
  shows "queue_length s' =
           queue_length s +
           max 0 (min (bitrate * 1000000)
                    (capacity * fst (random_uniform src 0.8 1.2 (rng_pos s)) * 0.9)
                  - capacity * fst (random_uniform src 0.8 1.2 (rng_pos s)))"
    and "r_delay (results s') =
           r_delay (results s) @
           [queue_length s' / (capacity * fst (random_uniform src 0.8 1.2 (rng_pos s))
                                + 0.000000001)]"
    and "rng_pos s' = rng_pos s + 2"
proof -
  from assms obtain nv th where
    rf: "record_frame pkt_size bitrate t
           (capacity * fst (random_uniform src 0.8 1.2 (rng_pos s)))
           (min (bitrate * 1000000)
              (capacity * fst (random_uniform src 0.8 1.2 (rng_pos s)) * 0.9))
           nv th (rng_pos s + 2) s = Inr s'"
    unfolding frame_def Let_def
    by (auto simp: and_then_Inr_iff random_uniform_def random_random_def split: if_splits)
  note s' = record_frame_Inr [OF rf]
  show "queue_length s' =
           queue_length s +
           max 0 (min (bitrate * 1000000)
                    (capacity * fst (random_uniform src 0.8 1.2 (rng_pos s)) * 0.9)
                  - capacity * fst (random_uniform src 0.8 1.2 (rng_pos s)))"
    by (subst s') simp
  show "r_delay (results s') =
           r_delay (results s) @
           [queue_length s' / (capacity * fst (random_uniform src 0.8 1.2 (rng_pos s))
                                + 0.000000001)]"
    by (subst (1 2) s') (simp add: store_def)
  show "rng_pos s' = rng_pos s + 2"
    by (subst s') simp
qed

lemma queue_increment_at_nonneg: "0 \<le> queue_increment_at src capacity bitrate t"
  by (simp add: queue_increment_at_def)

lemma queue_length_after_nonneg: "0 \<le> queue_length_after src capacity bitrate n"
  by (induction n) (simp_all add: queue_increment_at_nonneg)

lemma queue_length_after_mono:
  "m \<le> n \<Longrightarrow> queue_length_after src capacity bitrate m
                 \<le> queue_length_after src capacity bitrate n"
proof (induction n)
  case 0
  then show ?case by simp
next
  case (Suc n)
  show ?case
  proof (cases "m = Suc n")
    case True
    then show ?thesis by simp
  next
    case False
    with Suc have "queue_length_after src capacity bitrate m
                     \<le> queue_length_after src capacity bitrate n"
      by simp
    then show ?thesis
      using queue_increment_at_nonneg [of src capacity bitrate n] by simp
  qed
qed

lemma negative_capacity_run:
  "\<exists>s1 s2. for_range (frame (\<lambda>i. 1 / 2) (- 1000000) 1 1) [0..<1] initial_state = Inr s1 \<and>
     for_range (frame (\<lambda>i. 1 / 2) (- 1000000) 1 1) [0..<2] initial_state = Inr s2"
  by (simp add: upt_rec frame_def random_uniform_def random_random_def congestion_window_def
      py_int_np_div_def record_frame_def np_div_def np_sqrt_def np_log10_def Let_def
      initial_state_def)








lemma simulate_without_cwnd_capacity:
  "simulate_without_cwnd bw snr_db pkt_size bitrate total_frames src =
     (if 10 powr (snr_db / 10) > float_max then Inl OverflowError
      else and_then (for_range (frame_without_cwnd src (capacity_of bw snr_db) pkt_size bitrate)
                       [0..<nat total_frames] initial_state)
             (\<lambda>s. Inr (results s)))"
proof -
  have "0 < 1 + (10::real) powr (snr_db / 10)"
    by (intro add_pos_nonneg) simp_all
  then show ?thesis
    by (simp add: simulate_without_cwnd_def py_pow_def np_log2_def capacity_of_def Let_def)
qed







section \<open>The claims\<close>

subsection \<open>C1: configurations outside the preconditions\<close>




subsection \<open>C2: the queue never fills\<close>

text \<open>
  C2. With a positive bandwidth the capacity is positive, and with draws in \<open>[0, 1)\<close> so
  is every \<open>capacity_t\<close>. Then, at every frame, \<open>adaptive_bitrate \<le> 0.9 * capacity_t <
  capacity_t\<close>, the queue increment \<open>max(0, adaptive_bitrate - capacity_t)\<close> is exactly 0,
  \<open>queue_length\<close> is 0 after any number of frames, and every delay of a returned result
  is exactly 0. Packet size and target bitrate are arbitrary.
\<close>

theorem queue_stays_empty:
  assumes "0 < bw" and "unit_draws src"
  shows "adaptive_bitrate_at src (capacity_of bw snr_db) bitrate t
           \<le> capacity_t_at src (capacity_of bw snr_db) t * 0.9 \<and>
         capacity_t_at src (capacity_of bw snr_db) t * 0.9
           < capacity_t_at src (capacity_of bw snr_db) t \<and>
         queue_increment_at src (capacity_of bw snr_db) bitrate t = 0 \<and>
         (for_range (frame src (capacity_of bw snr_db) pkt_size bitrate) [0..<n] initial_state
            = Inr s \<longrightarrow> queue_length s = 0) \<and>
         (simulate_cross_layer bw snr_db pkt_size bitrate total_frames src = Inr res \<longrightarrow>
            r_delay res = replicate (nat total_frames) 0)"
proof -
  note c = capacity_of_pos [OF assms(1), of snr_db]
  have "queue_length s = 0"
    if "for_range (frame src (capacity_of bw snr_db) pkt_size bitrate) [0..<n] initial_state
          = Inr s"
    using for_range_frames_Inr [OF that] queue_length_after_zero [OF c assms(2)] by simp
  moreover have "r_delay res = replicate (nat total_frames) 0"
    if "simulate_cross_layer bw snr_db pkt_size bitrate total_frames src = Inr res"
    using simulate_cross_layer_Inr [OF that]
    by (simp add: delay_at_zero [OF c assms(2)] map_replicate_const)
  ultimately show ?thesis
    using adaptive_below_capacity [OF c assms(2)] queue_increment_at_zero [OF c assms(2)]
    by blast
qed

text \<open>The boundary scenario, two frames.\<close>

theorem queue_stays_empty_witness:
  "\<exists>res s. simulate_cross_layer 1 0 1 1 2 (\<lambda>i. 1 / 2) = Inr res \<and>
     for_range (frame (\<lambda>i. 1 / 2) (capacity_of 1 0) 1 1) [0..<2] initial_state = Inr s \<and>
     r_delay res = [0, 0] \<and> queue_length s = 0 \<and>
     queue_increment_at (\<lambda>i. 1 / 2) (capacity_of 1 0) 1 0 = 0"
proof -
  obtain res where run: "simulate_cross_layer 1 0 1 1 2 (\<lambda>i. 1 / 2) = Inr res"
    using boundary_run [of 2] by simp
  have v: "(0::real) < 1"
    by simp
  obtain s where
    loop: "for_range (frame (\<lambda>i. 1 / 2) (capacity_of 1 0) 1 1) [0..<2] initial_state = Inr s"
    using for_range_frames_succeeds [OF capacity_of_pos [OF v] half_unit_draws _ v, of 1 0 2]
    by simp
  from queue_stays_empty [OF v half_unit_draws, of 0 1 0 1 2 s 2 res] run loop
  have "r_delay res = replicate (nat 2) 0 \<and> queue_length s = 0 \<and>
     queue_increment_at (\<lambda>i. 1 / 2) (capacity_of 1 0) 1 0 = 0"
    by blast
  with run loop show ?thesis
    by (auto simp: numeral_2_eq_2)
qed

subsection \<open>C3: one record for each frame, in order\<close>

text \<open>
  C3. Whenever \<open>simulate_cross_layer\<close> returns, each of the six series has exactly
  \<open>total_frames\<close> entries (none when \<open>total_frames\<close> is negative), and the time series is
  \<open>0, 1, ..., total_frames - 1\<close>: its \<open>i\<close>-th entry is \<open>i\<close>. For a valid configuration
  (bandwidth, packet size, target bitrate and frame count positive), draws in \<open>[0, 1)\<close>
  and a linear SNR within the range of a double, the simulation does return, with
  \<open>total_frames\<close> records.
\<close>

theorem simulate_cross_layer_frame_count:
  "(simulate_cross_layer bw snr_db pkt_size bitrate total_frames src = Inr res \<longrightarrow>
      r_time res = map int [0..<nat total_frames] \<and>
      length (r_time res) = nat total_frames \<and>
      length (r_bitrate res) = nat total_frames \<and>
      length (r_psnr res) = nat total_frames \<and>
      length (r_delay res) = nat total_frames \<and>
      length (r_energy res) = nat total_frames \<and>
      length (r_throughput res) = nat total_frames \<and>
      (\<forall>i < nat total_frames. r_time res ! i = int i)) \<and>
   (0 < bw \<and> 0 < pkt_size \<and> 0 < bitrate \<and> 0 < total_frames \<and> unit_draws src \<and>
    10 powr (snr_db / 10) \<le> float_max \<longrightarrow>
      (\<exists>r. simulate_cross_layer bw snr_db pkt_size bitrate total_frames src = Inr r \<and>
           int (length (r_time r)) = total_frames))"
proof (intro conjI impI)
  assume "0 < bw \<and> 0 < pkt_size \<and> 0 < bitrate \<and> 0 < total_frames \<and> unit_draws src \<and>
    10 powr (snr_db / 10) \<le> float_max"
  then show "\<exists>r. simulate_cross_layer bw snr_db pkt_size bitrate total_frames src = Inr r \<and>
           int (length (r_time r)) = total_frames"
    using simulate_cross_layer_succeeds [of bw pkt_size bitrate src snr_db total_frames]
    by simp
qed (auto dest!: simulate_cross_layer_Inr)

text \<open>The boundary scenario of the specification (1 MHz, 0 dB, 1 KB, 1 Mbps) run for three
  frames.\<close>

theorem simulate_cross_layer_frame_count_witness:
  "\<exists>r. simulate_cross_layer 1 0 1 1 3 (\<lambda>i. 1 / 2) = Inr r \<and> r_time r = [0, 1, 2] \<and>
     length (r_psnr r) = 3 \<and> r_time r ! 2 = 2"
  using simulate_cross_layer_frame_count [of 1 0 1 1 3 "\<lambda>i. 1 / 2"] boundary_run [of 3]
  by (simp add: upt_rec)

subsection \<open>C4: the recorded bitrate and throughput\<close>

text \<open>
  C4. In a returned result, frame \<open>t\<close> records the bitrate \<open>min(bitrate * 1e6, capacity_t *
  0.9)\<close> in Mbps, and the throughput is that bitrate times the routing efficiency 0.95
  times the link efficiency of the frame. The link efficiency is 0.9 or 1.0, decided by
  the frame's own second draw \<open>r\<close>: 0.9 exactly when \<open>r \<le> 0.1\<close>, an interval of length 0.1
  of \<open>[0, 1)\<close>. For a positive bandwidth and target bitrate and draws in \<open>[0, 1)\<close>,
  throughput \<open>\<le>\<close> 0.95 * bitrate \<open>\<le>\<close> 0.95 * target. Probabilities themselves are not part
  of the model: a draw is a value of the random sequence.
\<close>

theorem bitrate_and_throughput:
  assumes "simulate_cross_layer bw snr_db pkt_size bitrate total_frames src = Inr res"
    and "t < nat total_frames"
  shows "r_bitrate res ! t =
           min (bitrate * 1000000) (capacity_t_at src (capacity_of bw snr_db) t * 0.9) / 1000000 \<and>
         r_throughput res ! t = r_bitrate res ! t * 0.95 * link_eff_at src t \<and>
         (link_eff_at src t = 0.9 \<or> link_eff_at src t = 1) \<and>
         (link_eff_at src t = 0.9 \<longleftrightarrow> src (2 * t + 1) \<le> 0.1) \<and>
         (0 < bw \<and> 0 < bitrate \<and> unit_draws src \<longrightarrow>
            r_throughput res ! t \<le> 0.95 * r_bitrate res ! t \<and>
            0.95 * r_bitrate res ! t \<le> 0.95 * bitrate)"
proof -
  note res = simulate_cross_layer_Inr [OF assms(1)]
  have b: "r_bitrate res ! t = adaptive_bitrate_at src (capacity_of bw snr_db) bitrate t / 1000000"
    and th: "r_throughput res ! t = throughput_at src (capacity_of bw snr_db) bitrate t / 1000000"
    using assms(2) by (simp_all add: res)
  have "r_throughput res ! t \<le> 0.95 * r_bitrate res ! t \<and>
        0.95 * r_bitrate res ! t \<le> 0.95 * bitrate"
    if v: "0 < bw \<and> 0 < bitrate \<and> unit_draws src"
  proof -
    have "0 \<le> adaptive_bitrate_at src (capacity_of bw snr_db) bitrate t"
      using v by (intro adaptive_bitrate_at_nonneg capacity_of_pos) simp_all
    from throughput_at_le [OF this] have "r_throughput res ! t \<le> 0.95 * r_bitrate res ! t"
      by (simp add: b th)
    moreover have "r_bitrate res ! t \<le> bitrate"
      by (simp add: b adaptive_bitrate_at_def)
    ultimately show ?thesis
      by simp
  qed
  moreover have "r_throughput res ! t = r_bitrate res ! t * 0.95 * link_eff_at src t"
    by (simp add: b th throughput_at_def)
  ultimately show ?thesis
    using link_eff_at_cases [of src t] link_eff_at_low [of src t]
    by (simp add: b adaptive_bitrate_at_def) blast
qed

text \<open>The boundary scenario: the multiplier is 1, the capacity 1 Mbps binds and the link
  draw 0.5 leaves the link efficiency at 1.\<close>

theorem bitrate_and_throughput_witness:
  "\<exists>res. simulate_cross_layer 1 0 1 1 1 (\<lambda>i. 1 / 2) = Inr res \<and>
     r_bitrate res ! 0 = 0.9 \<and> r_throughput res ! 0 = 0.9 * 0.95 \<and>
     r_throughput res ! 0 \<le> 0.95 * r_bitrate res ! 0"
proof -
  obtain res where run: "simulate_cross_layer 1 0 1 1 1 (\<lambda>i. 1 / 2) = Inr res"
    using boundary_run [of 1] by simp
  have "(0::nat) < nat 1"
    by simp
  from bitrate_and_throughput [OF run this] half_unit_draws
  have "r_bitrate res ! 0 = 0.9 \<and> r_throughput res ! 0 = 0.9 * 0.95 \<and>
     r_throughput res ! 0 \<le> 0.95 * r_bitrate res ! 0"
    by (simp add: capacity_of_one_zero capacity_t_at_def random_uniform_def link_eff_at_def
        random_random_def)
  with run show ?thesis
    by blast
qed

subsection \<open>C5: a valid configuration never leaves the arithmetic\<close>



subsection \<open>C6: the queue accumulator and the delay\<close>

text \<open>
  C6. \<open>queue_length\<close> starts at 0. A frame that completes has added
  \<open>max(0, adaptive_bitrate - capacity_t)\<close> to it, once; the increment is not negative, so
  the queue after the frame is at least the queue before it, and the delay the frame
  appends is the updated queue divided by \<open>capacity_t + 1e-9\<close>. Over a run the queue is
  never below 0 and never decreases from one frame count to a larger one.
\<close>

theorem queue_only_grows:
  "queue_length initial_state = 0 \<and>
   (frame src capacity pkt_size bitrate t s = Inr s' \<longrightarrow>
      (let capacity_t = capacity * fst (random_uniform src 0.8 1.2 (rng_pos s));
           adaptive_bitrate = min (bitrate * 1000000) (capacity_t * 0.9)
       in queue_length s' = queue_length s + max 0 (adaptive_bitrate - capacity_t) \<and>
          0 \<le> max 0 (adaptive_bitrate - capacity_t) \<and>
          queue_length s \<le> queue_length s' \<and>
          r_delay (results s') =
            r_delay (results s) @ [queue_length s' / (capacity_t + 0.000000001)])) \<and>
   (for_range (frame src capacity pkt_size bitrate) [0..<n] initial_state = Inr s2 \<longrightarrow>
      0 \<le> queue_length s2 \<and>
      (\<forall>m s1. m \<le> n \<and>
         for_range (frame src capacity pkt_size bitrate) [0..<m] initial_state = Inr s1 \<longrightarrow>
         queue_length s1 \<le> queue_length s2))"
proof (intro conjI impI)
  show "queue_length initial_state = 0"
    by (simp add: initial_state_def)
next
  assume "frame src capacity pkt_size bitrate t s = Inr s'"
  from frame_Inr_step(1,2) [OF this]
  show "let capacity_t = capacity * fst (random_uniform src 0.8 1.2 (rng_pos s));
            adaptive_bitrate = min (bitrate * 1000000) (capacity_t * 0.9)
        in queue_length s' = queue_length s + max 0 (adaptive_bitrate - capacity_t) \<and>
           0 \<le> max 0 (adaptive_bitrate - capacity_t) \<and>
           queue_length s \<le> queue_length s' \<and>
           r_delay (results s') =
             r_delay (results s) @ [queue_length s' / (capacity_t + 0.000000001)]"
    unfolding Let_def by simp
next
  assume run: "for_range (frame src capacity pkt_size bitrate) [0..<n] initial_state = Inr s2"
  then show "0 \<le> queue_length s2"
    using for_range_frames_Inr [OF run] queue_length_after_nonneg [of src capacity bitrate n]
    by simp
  show "\<forall>m s1. m \<le> n \<and>
         for_range (frame src capacity pkt_size bitrate) [0..<m] initial_state = Inr s1 \<longrightarrow>
         queue_length s1 \<le> queue_length s2"
  proof (intro allI impI)
    fix m s1
    assume h: "m \<le> n \<and>
         for_range (frame src capacity pkt_size bitrate) [0..<m] initial_state = Inr s1"
    then have "queue_length s1 = queue_length_after src capacity bitrate m"
      using for_range_frames_Inr by fastforce
    moreover have "queue_length s2 = queue_length_after src capacity bitrate n"
      using for_range_frames_Inr [OF run] by simp
    ultimately show "queue_length s1 \<le> queue_length s2"
      using queue_length_after_mono h by simp
  qed
qed

text \<open>A run whose queue does grow: with the capacity \<open>-1e6\<close> (a negative bandwidth) the
  adaptive bitrate \<open>-0.9e6\<close> exceeds the capacity by \<open>1e5\<close> in each frame.\<close>

theorem queue_only_grows_witness:
  "\<exists>s1 s2. frame (\<lambda>i. 1 / 2) (- 1000000) 1 1 0 initial_state = Inr s1 \<and>
     for_range (frame (\<lambda>i. 1 / 2) (- 1000000) 1 1) [0..<2] initial_state = Inr s2 \<and>
     queue_length initial_state = 0 \<and> queue_length s1 = 100000 \<and>
     r_delay (results s1) = [100000 / (- 1000000 + 0.000000001)] \<and>
     queue_length s1 \<le> queue_length s2 \<and> 0 \<le> queue_length s2"
proof -
  obtain s1 s2 where
    one: "for_range (frame (\<lambda>i. 1 / 2) (- 1000000) 1 1) [0..<1] initial_state = Inr s1"
    and two: "for_range (frame (\<lambda>i. 1 / 2) (- 1000000) 1 1) [0..<2] initial_state = Inr s2"
    using negative_capacity_run by blast
  from one have step: "frame (\<lambda>i. 1 / 2) (- 1000000) 1 1 0 initial_state = Inr s1"
    by (auto simp: upt_rec and_then_Inr_iff)
  note inst = queue_only_grows [of "\<lambda>i. 1 / 2" "- 1000000" 1 1 0 initial_state s1 2 s2]
  from inst step have "queue_length initial_state = 0 \<and> queue_length s1 = 100000 \<and>
     r_delay (results s1) = [100000 / (- 1000000 + 0.000000001)]"
    by (simp add: Let_def random_uniform_def initial_state_def empty_results_def)
  moreover from inst two have over: "0 \<le> queue_length s2 \<and>
     (\<forall>m s. m \<le> 2 \<and>
        for_range (frame (\<lambda>i. 1 / 2) (- 1000000) 1 1) [0..<m] initial_state = Inr s \<longrightarrow>
        queue_length s \<le> queue_length s2)"
    by blast
  then have "(1::nat) \<le> 2 \<and>
        for_range (frame (\<lambda>i. 1 / 2) (- 1000000) 1 1) [0..<1] initial_state = Inr s1 \<longrightarrow>
        queue_length s1 \<le> queue_length s2"
    by blast
  with one over have "queue_length s1 \<le> queue_length s2 \<and> 0 \<le> queue_length s2"
    by simp
  ultimately show ?thesis
    using step two by blast
qed

subsection \<open>C7: the PSNR ceiling\<close>

text \<open>
  C7. Whatever the configuration and the draws, every PSNR value of a returned result is
  at most \<open>20 * log10(255)\<close>: line 59 clamps \<open>mse\<close> to at least 1, so \<open>255 / sqrt(mse)\<close>
  is at most 255.
\<close>

theorem psnr_upper_bound:
  "simulate_cross_layer bw snr_db pkt_size bitrate total_frames src = Inr res \<Longrightarrow>
     \<forall>p \<in> set (r_psnr res). p \<le> 20 * log 10 255"
  by (auto dest!: simulate_cross_layer_Inr simp: psnr_at_le)

text \<open>The boundary scenario, one frame.\<close>

theorem psnr_upper_bound_witness:
  "\<exists>res. simulate_cross_layer 1 0 1 1 1 (\<lambda>i. 1 / 2) = Inr res \<and>
     length (r_psnr res) = 1 \<and> r_psnr res ! 0 \<le> 20 * log 10 255"
proof -
  obtain res where run: "simulate_cross_layer 1 0 1 1 1 (\<lambda>i. 1 / 2) = Inr res"
    and len: "length (r_psnr res) = 1"
    using boundary_run [of 1] by simp
  from len have "r_psnr res ! 0 \<in> set (r_psnr res)"
    by simp
  with psnr_upper_bound [OF run] have "r_psnr res ! 0 \<le> 20 * log 10 255"
    by blast
  with run len show ?thesis
    by blast
qed

subsection \<open>C8: the clamp on the mean squared error is never active\<close>



subsection \<open>C9: the result is a function of the configuration and the draws\<close>

text \<open>
  C9. Two runs with the same configuration whose random sources give the same draws
  return the same outcome, the same six series or the same failure. A run of
  \<open>total_frames\<close> frames reads only the first \<open>2 * total_frames\<close> draws, so the sources need
  to agree on these alone.
\<close>

theorem same_draws_same_result:
  "\<forall>i < 2 * nat total_frames. src1 i = src2 i \<Longrightarrow>
     simulate_cross_layer bw snr_db pkt_size bitrate total_frames src1 =
     simulate_cross_layer bw snr_db pkt_size bitrate total_frames src2"
  using for_range_frames_cong [of "nat total_frames" src1 src2 "capacity_of bw snr_db"
      pkt_size bitrate]
  by (simp add: simulate_cross_layer_capacity)

text \<open>Two sources that differ from the third draw on, and one frame.\<close>

theorem same_draws_same_result_witness:
  "simulate_cross_layer 1 0 1 1 1 (\<lambda>i. 1 / 2) =
   simulate_cross_layer 1 0 1 1 1 (\<lambda>i. if i < 2 then 1 / 2 else 1 / 4)"
  using same_draws_same_result [of 1 "\<lambda>i. 1 / 2" "\<lambda>i. if i < 2 then 1 / 2 else 1 / 4"]
  by simp

subsection \<open>C10: the congestion window feeds nothing\<close>



text \<open>
  The packet size 0 is the one place where line 40 shows: the quotient is infinite,
  \<^verbatim>\<open>int\<close> raises OverflowError and the run ends, while the run without the window goes
  on to return a result.
\<close>

lemma zero_packet_size_run:
  "simulate_cross_layer 1 0 0 1 1 (\<lambda>i. 1 / 2) = Inl OverflowError \<and>
   (\<exists>res. simulate_without_cwnd 1 0 0 1 1 (\<lambda>i. 1 / 2) = Inr res)"
  by (simp add: simulate_cross_layer_capacity simulate_without_cwnd_capacity float_max_def
      capacity_of_one_zero frame_def frame_without_cwnd_def random_uniform_def
      random_random_def congestion_window_def py_int_np_div_def record_frame_def np_div_def
      py_div_def np_sqrt_def np_log10_def Let_def initial_state_def)

end
